theory Spec2Isabelle
  imports Main "HOL-Library.Word"
begin

section \<open>chain: selecting the bitcoind event source (bitcoind\_events.go)\<close>

text \<open>
  Go errors are modelled by their message, raw JSON by its bytes. A Go pointer is an
  \<open>option\<close>: \<open>None\<close> is \<open>nil\<close>.
\<close>

type_synonym error = string
type_synonym bytes = "8 word list"

text \<open>
  \<open>BitcoindConfig\<close> is declared outside bitcoind\_events.go; the function reads two of
  its fields, both pointers. The record is extensible, so the other fields of the Go
  struct are its \<open>more\<close> part.
\<close>

record ('p, 'z) BitcoindConfig =
  PollingConfig :: "'p option"
  ZMQConfig :: "'z option"

text \<open>
  What the function calls and does not define: \<open>rpcclient.Client.RawRequest\<close> and
  \<open>json.Unmarshal\<close> (libraries), \<open>newBitcoindRPCPollingEvents\<close> and
  \<open>newBitcoindZMQEvents\<close> (other files of the package). They are parameters.
  \<^item> \<open>RawRequest client method\<close> is \<open>client.RawRequest(method, nil)\<close>: \<open>None\<close> when
    the call panics (the receiver may be \<open>nil\<close>), \<open>Some (Inl err)\<close> for a non-nil error,
    \<open>Some (Inr resp)\<close> for a response.
  \<^item> \<open>Unmarshal resp\<close> is \<open>json.Unmarshal(resp, &info)\<close> on a zeroed
    \<open>struct { Version int64 `json:"version"` }\<close>: the error, or the \<open>Version\<close> field
    afterwards.
  \<^item> \<open>newBitcoindZMQEvents\<close> returns a pointer and an error, as in Go.
\<close>

record ('c, 'p, 'z, 'ev) backend =
  RawRequest :: "'c option \<Rightarrow> string \<Rightarrow> (error + bytes) option"
  Unmarshal :: "bytes \<Rightarrow> error + 64 word"
  newBitcoindRPCPollingEvents :: "'p \<Rightarrow> 'c \<Rightarrow> 'ev"
  newBitcoindZMQEvents :: "'z \<Rightarrow> 'c option \<Rightarrow> bool \<Rightarrow> 'ev option \<times> error option"

text \<open>
  The calls that leave the function are logged in the order they are made, so that a
  statement about what is called, how often and in which order can be made.
\<close>

datatype call = RPC string | NewPollingEvents | NewZMQEvents bool

text \<open>
  \<open>hasSpendingPrevoutRPC\<close> returns \<open>(bool, error)\<close>; \<open>None\<close> is a panic inside
  \<open>RawRequest\<close>. \<open>info.Version >= 240000\<close> compares two \<open>int64\<close>.
\<close>

definition hasSpendingPrevoutRPC ::
  "('c, 'p, 'z, 'ev) backend \<Rightarrow> 'c option \<Rightarrow> call list \<times> (bool \<times> error option) option" where
  "hasSpendingPrevoutRPC B client =
     (case RawRequest B client ''getnetworkinfo'' of
        None \<Rightarrow> ([RPC ''getnetworkinfo''], None)
      | Some (Inl err) \<Rightarrow> ([RPC ''getnetworkinfo''], Some (False, Some err))
      | Some (Inr resp) \<Rightarrow>
          (case Unmarshal B resp of
             Inl err \<Rightarrow> ([RPC ''getnetworkinfo''], Some (False, Some err))
           | Inr version \<Rightarrow> ([RPC ''getnetworkinfo''], Some (240000 \<le>s version, None))))"

text \<open>
  \<open>NewBitcoindEventSubscriber\<close> returns \<open>(BitcoindEvents, error)\<close>. \<open>cfg\<close> is a
  pointer that the first line dereferences.
\<close>

datatype 'ev subscriber = Panic | Returns "'ev option" "error option"

definition NewBitcoindEventSubscriber ::
  "('c, 'p, 'z, 'ev) backend \<Rightarrow> ('p, 'z) BitcoindConfig option \<Rightarrow> 'c option
     \<Rightarrow> call list \<times> 'ev subscriber" where
  "NewBitcoindEventSubscriber B cfg client =
     (case cfg of
        None \<Rightarrow> ([], Panic)
      | Some cfg \<Rightarrow>
          if PollingConfig cfg \<noteq> None \<and> ZMQConfig cfg \<noteq> None then
            ([], Returns None
               (Some ''either PollingConfig or ZMQConfig should be specified, not both''))
          else
            (case PollingConfig cfg of
               Some pollingConfig \<Rightarrow>
                 (case client of
                    None \<Rightarrow>
                      ([], Returns None
                         (Some (''rpc client must be given if rpc polling is to be used '' @
                                ''for event subscriptions'')))
                  | Some c \<Rightarrow>
                      ([NewPollingEvents],
                       Returns (Some (newBitcoindRPCPollingEvents B pollingConfig c)) None))
             | None \<Rightarrow>
                 (case ZMQConfig cfg of
                    None \<Rightarrow>
                      ([], Returns None
                         (Some ''ZMQConfig must be specified if rpcpolling is disabled''))
                  | Some zmqConfig \<Rightarrow>
                      (case hasSpendingPrevoutRPC B client of
                         (calls, None) \<Rightarrow> (calls, Panic)
                       | (calls, Some (hasRPC, Some err)) \<Rightarrow> (calls, Returns None (Some err))
                       | (calls, Some (hasRPC, None)) \<Rightarrow>
                           (case newBitcoindZMQEvents B zmqConfig client hasRPC of
                              (ev, err) \<Rightarrow> (calls @ [NewZMQEvents hasRPC], Returns ev err))))))"

text \<open>
  A backend for concrete runs: a bitcoind that answers \<open>getnetworkinfo\<close> with
  \<open>rpc_answer\<close> (an error or the raw response), whose response decodes to
  \<open>json_answer\<close>. A \<open>nil\<close> client panics in \<open>RawRequest\<close>.
\<close>

definition test_backend ::
  "(error + bytes) \<Rightarrow> (error + 64 word) \<Rightarrow> (unit, unit, unit, string) backend" where
  "test_backend rpc_answer json_answer =
     \<lparr> RawRequest = (\<lambda>client method. case client of None \<Rightarrow> None | Some _ \<Rightarrow> Some rpc_answer),
       Unmarshal = (\<lambda>resp. json_answer),
       newBitcoindRPCPollingEvents = (\<lambda>p c. ''polling''),
       newBitcoindZMQEvents =
         (\<lambda>z c hasRPC. (Some (if hasRPC then ''zmq without mempool'' else ''zmq with mempool''), None)) \<rparr>"


section \<open>txauthor: the test of NewUnsignedTransaction (author\_test.go)\<close>

text \<open>
  Of package txauthor the sources hold the test only. \<open>ltcutil.Amount\<close> and the
  \<open>Value\<close> of a \<open>wire.TxOut\<close> are \<open>int64\<close>: they are integers here, and
  \<open>wrap64\<close> is written where the test computes with them.
\<close>

definition wrap64 :: "int \<Rightarrow> int" where
  "wrap64 x = (x + 2 ^ 63) mod 2 ^ 64 - 2 ^ 63"

record TxOut =
  Value :: int
  PkScript :: bytes

record OutPoint =
  Hash :: bytes
  Index :: "32 word"

record TxIn =
  PreviousOutPoint :: OutPoint
  SignatureScript :: bytes
  Witness :: "bytes list"

record MsgTx =
  Version :: int
  TxIn :: "TxIn list"
  TxOut :: "TxOut list"
  LockTime :: "32 word"

text \<open>
  \<open>AuthoredTx\<close> is declared outside the sources. The test reads \<open>tx.Tx.TxIn\<close>,
  \<open>tx.Tx.TxOut\<close> and \<open>tx.ChangeIndex\<close>; the two parallel sequences are the ones the
  specification lists (section 3, UnsignedTransaction).
\<close>

record AuthoredTx =
  Tx :: MsgTx
  input_values :: "int list"
  previous_scripts :: "bytes list"
  ChangeIndex :: int

text \<open>
  The error \<open>NewUnsignedTransaction\<close> returns, as the type switch of the test tells
  them apart: one that implements \<open>InputSourceError\<close>, or any other.
\<close>

datatype author_error = ErrInputSource | ErrOther error

text \<open>
  \<open>ChangeSource\<close>, as the test builds it: \<open>NewScript\<close> is a function without
  arguments, here the result of calling it; \<open>ScriptSize\<close> is an \<open>int\<close>.
\<close>

record ChangeSource =
  NewScript :: "error + bytes"
  ScriptSize :: int

text \<open>
  \<open>InputSource\<close> is a closure \<open>func(target) (total, inputs, inputValues, scripts,
  error)\<close> that keeps state between calls: a function from the state and the target to
  the five results and the next state.
\<close>

type_synonym source_return = "int \<times> TxIn list \<times> int list \<times> bytes list \<times> error option"
type_synonym 's InputSource = "'s \<Rightarrow> int \<Rightarrow> source_return \<times> 's"



text \<open>
  What the test takes from packages txsizes and txrules, which are not in the sources:
  two constants and two functions. They are parameters of the test table.
\<close>

record deps =
  P2PKHOutputSize :: int
  P2WPKHPkScriptSize :: int
  EstimateVirtualSize :: "int \<Rightarrow> int \<Rightarrow> int \<Rightarrow> int \<Rightarrow> TxOut list \<Rightarrow> int \<Rightarrow> int"
  FeeForSerializeSize :: "int \<Rightarrow> int \<Rightarrow> int"

text \<open>\<open>p2pkhOutputs\<close>: one output per amount, with a zeroed script of \<open>P2PKHOutputSize\<close> bytes.\<close>

definition p2pkhOutputs :: "deps \<Rightarrow> int list \<Rightarrow> TxOut list" where
  "p2pkhOutputs D amounts =
     map (\<lambda>a. \<lparr>Value = a, PkScript = replicate (nat (P2PKHOutputSize D)) 0\<rparr>) amounts"

text \<open>
  \<open>makeInputSource\<close>: the closure's variables are the state. \<open>wire.NewTxIn(&wire.OutPoint{},
  nil, nil)\<close> is an input that spends the zero outpoint, with no script and no witness.
\<close>

record source_state =
  unspents :: "TxOut list"
  currentTotal :: int
  currentInputs :: "TxIn list"
  currentInputValues :: "int list"

definition nextInput :: TxIn where
  "nextInput = \<lparr>PreviousOutPoint = \<lparr>Hash = replicate 32 0, Index = 0\<rparr>,
                 SignatureScript = [], Witness = []\<rparr>"

definition makeInputSource :: "TxOut list \<Rightarrow> source_state" where
  "makeInputSource us =
     \<lparr>unspents = us, currentTotal = 0, currentInputs = [], currentInputValues = []\<rparr>"

text \<open>The loop \<open>for currentTotal < target && len(unspents) != 0\<close>, by recursion on \<open>unspents\<close>.\<close>

fun consume :: "int \<Rightarrow> TxOut list \<Rightarrow> int \<Rightarrow> TxIn list \<Rightarrow> int list \<Rightarrow> source_state" where
  "consume target [] tot ins vals =
     \<lparr>unspents = [], currentTotal = tot, currentInputs = ins, currentInputValues = vals\<rparr>"
| "consume target (u # us) tot ins vals =
     (if tot < target
      then consume target us (wrap64 (tot + Value u)) (ins @ [nextInput]) (vals @ [Value u])
      else \<lparr>unspents = u # us, currentTotal = tot, currentInputs = ins,
            currentInputValues = vals\<rparr>)"

text \<open>One call of the closure; it never returns an error.\<close>

definition inputSource :: "source_state InputSource" where
  "inputSource st target =
     (let st' = consume target (unspents st) (currentTotal st) (currentInputs st)
                  (currentInputValues st)
      in ((currentTotal st', currentInputs st', currentInputValues st',
           replicate (length (currentInputs st')) [], None), st'))"

text \<open>The test table, entries 0 to 12. \<open>2.55e3\<close> is 2550; the subtractions are \<open>int64\<close>.\<close>

record test_case =
  UnspentOutputs :: "TxOut list"
  Outputs :: "TxOut list"
  RelayFee :: int
  ChangeAmount :: int
  InputSourceError :: bool
  InputCount :: int

definition change_fee :: "deps \<Rightarrow> int \<Rightarrow> int \<Rightarrow> int list \<Rightarrow> int" where
  "change_fee D rate n amounts =
     FeeForSerializeSize D rate
       (EstimateVirtualSize D n 0 0 0 (p2pkhOutputs D amounts) (P2WPKHPkScriptSize D))"

definition tests :: "deps \<Rightarrow> test_case list" where
  "tests D =
   [ \<lparr>UnspentOutputs = p2pkhOutputs D [100000000], Outputs = p2pkhOutputs D [100000000],
      RelayFee = 1000, ChangeAmount = 0, InputSourceError = True, InputCount = 0\<rparr>,
     \<lparr>UnspentOutputs = p2pkhOutputs D [100000000], Outputs = p2pkhOutputs D [1000000],
      RelayFee = 1000,
      ChangeAmount = wrap64 (99000000 - change_fee D 1000 1 [1000000]),
      InputSourceError = False, InputCount = 1\<rparr>,
     \<lparr>UnspentOutputs = p2pkhOutputs D [100000000], Outputs = p2pkhOutputs D [1000000],
      RelayFee = 10000,
      ChangeAmount = wrap64 (99000000 - change_fee D 10000 1 [1000000]),
      InputSourceError = False, InputCount = 1\<rparr>,
     \<lparr>UnspentOutputs = p2pkhOutputs D [100000000],
      Outputs = p2pkhOutputs D [1000000, 1000000, 1000000],
      RelayFee = 10000,
      ChangeAmount = wrap64 (97000000 - change_fee D 10000 1 [1000000, 1000000, 1000000]),
      InputSourceError = False, InputCount = 1\<rparr>,
     \<lparr>UnspentOutputs = p2pkhOutputs D [100000000],
      Outputs = p2pkhOutputs D [1000000, 1000000, 1000000],
      RelayFee = 2550,
      ChangeAmount = wrap64 (97000000 - change_fee D 2550 1 [1000000, 1000000, 1000000]),
      InputSourceError = False, InputCount = 1\<rparr>,
     \<lparr>UnspentOutputs = p2pkhOutputs D [100000000],
      Outputs = p2pkhOutputs D [wrap64 (99994541 - change_fee D 1000 1 [0])],
      RelayFee = 1000, ChangeAmount = 5459, InputSourceError = False, InputCount = 1\<rparr>,
     \<lparr>UnspentOutputs = p2pkhOutputs D [100000000],
      Outputs = p2pkhOutputs D [wrap64 (99994540 - change_fee D 1000 1 [0])],
      RelayFee = 1000, ChangeAmount = 5460, InputSourceError = False, InputCount = 1\<rparr>,
     \<lparr>UnspentOutputs = p2pkhOutputs D [100000000],
      Outputs = p2pkhOutputs D [wrap64 (99986080 - change_fee D 2550 1 [0])],
      RelayFee = 2550, ChangeAmount = 13920, InputSourceError = False, InputCount = 1\<rparr>,
     \<lparr>UnspentOutputs = p2pkhOutputs D [100000000],
      Outputs = p2pkhOutputs D [wrap64 (99986070 - change_fee D 2550 1 [0])],
      RelayFee = 2550, ChangeAmount = 13930, InputSourceError = False, InputCount = 1\<rparr>,
     \<lparr>UnspentOutputs = p2pkhOutputs D [100000000, 100000000],
      Outputs = p2pkhOutputs D [wrap64 (99994540 - change_fee D 1000 1 [0])],
      RelayFee = 1000, ChangeAmount = 5460, InputSourceError = False, InputCount = 1\<rparr>,
     \<lparr>UnspentOutputs = p2pkhOutputs D [100000000, 100000000],
      Outputs = p2pkhOutputs D [wrap64 (99994550 - change_fee D 1000 1 [0])],
      RelayFee = 1000, ChangeAmount = 5450, InputSourceError = False, InputCount = 1\<rparr>,
     \<lparr>UnspentOutputs = p2pkhOutputs D [100000000, 100000000],
      Outputs = p2pkhOutputs D [100000000],
      RelayFee = 1000,
      ChangeAmount = wrap64 (100000000 - change_fee D 1000 2 [100000000]),
      InputSourceError = False, InputCount = 2\<rparr>,
     \<lparr>UnspentOutputs = p2pkhOutputs D [100000000], Outputs = p2pkhOutputs D [100000000],
      RelayFee = 0, ChangeAmount = 0, InputSourceError = False, InputCount = 1\<rparr> ]"

text \<open>The \<open>ChangeSource\<close> of the test: a zeroed script of \<open>P2WPKHPkScriptSize\<close> bytes.\<close>

definition changeSource :: "deps \<Rightarrow> ChangeSource" where
  "changeSource D =
     \<lparr>NewScript = Inr (replicate (nat (P2WPKHPkScriptSize D)) 0),
      ScriptSize = P2WPKHPkScriptSize D\<rparr>"

text \<open>
  The body of the loop over the table, from the type switch on: what the test reports for
  one entry and one result of \<open>NewUnsignedTransaction\<close>. Each \<open>t.Errorf\<close> is a
  \<open>failure\<close>; the entry passes when the list is empty. Reading
  \<open>tx.Tx.TxOut[tx.ChangeIndex]\<close> out of range panics, which fails the test as well.
\<close>

datatype failure =
    ReturnedInputSourceError int
  | UnexpectedError error
  | NoChangeOutputAdded int
  | IncludedChangeOutput int
  | GotChangeAmount int int
  | UsedOutputs int int
  | IndexOutOfRange

definition check_inputs :: "test_case \<Rightarrow> AuthoredTx \<Rightarrow> failure list" where
  "check_inputs test tx =
     (if int (length (TxIn (Tx tx))) \<noteq> InputCount test
      then [UsedOutputs (int (length (TxIn (Tx tx)))) (InputCount test)] else [])"

definition check_test :: "test_case \<Rightarrow> author_error + AuthoredTx \<Rightarrow> failure list" where
  "check_test test res =
     (case res of
        Inl ErrInputSource \<Rightarrow>
          if \<not> InputSourceError test then [ReturnedInputSourceError (ChangeAmount test)] else []
      | Inl (ErrOther e) \<Rightarrow> [UnexpectedError e]
      | Inr tx \<Rightarrow>
          if ChangeIndex tx < 0 then
            (if ChangeAmount test \<noteq> 0 then [NoChangeOutputAdded (ChangeAmount test)]
             else check_inputs test tx)
          else if length (TxOut (Tx tx)) \<le> nat (ChangeIndex tx) then [IndexOutOfRange]
          else
            (let changeAmount = Value (TxOut (Tx tx) ! nat (ChangeIndex tx)) in
             if ChangeAmount test = 0 then [IncludedChangeOutput changeAmount]
             else if changeAmount \<noteq> ChangeAmount test
             then [GotChangeAmount changeAmount (ChangeAmount test)]
             else check_inputs test tx))"


section \<open>txauthor: the author, from the specification\<close>

text \<open>
  Modelled from the spec: the size estimator and the sizes of the dust rule, which the
  specification names and does not define (section 4.3, steps 2a, 4a and 4d; section 9
  leaves the constants open), and the default version and lock time of step 5. They are
  the parameters of the author. \<open>estimate_vsize scripts outputs change\<close> takes the previous
  scripts of the selected inputs (the input count by script type), the outputs, and the
  script size of a change output when one is assumed.
\<close>

record policy =
  estimate_vsize :: "bytes list \<Rightarrow> TxOut list \<Rightarrow> int option \<Rightarrow> int"
  change_output_serialized_size :: "int \<Rightarrow> int"
  input_spend_vsize :: int
  default_version :: int
  default_locktime :: "32 word"

text \<open>
  Modelled from the spec: \<open>sum_outputs\<close>, the sum of the output values (section 4.3,
  step 1); it belongs to author.go, which is not in the sources.
\<close>

definition sum_outputs :: "TxOut list \<Rightarrow> int" where
  "sum_outputs outputs = sum_list (map Value outputs)"

text \<open>
  Modelled from the spec: the fee rule \<open>ceil(relay_fee_rate \<times> vsize / 1000)\<close> of steps 2b
  and 4b; package txrules, which holds it, is not in the sources. The ceiling of a quotient
  of integers is the negated floor of the negated quotient.
\<close>

definition required_fee :: "int \<Rightarrow> int \<Rightarrow> int" where
  "required_fee relay_fee_rate vsize = - ((- (relay_fee_rate * vsize)) div 1000)"

text \<open>
  Modelled from the spec: the dust threshold of step 4d,
  \<open>3 \<times> relay_fee_rate \<times> (change_output_serialized_size + input_spend_vsize) / 1000\<close>, the
  division that of integers (1392 at 2550, where the quotient is 1392.3); package txrules
  is not in the sources.
\<close>

definition dust_threshold :: "policy \<Rightarrow> int \<Rightarrow> int \<Rightarrow> int" where
  "dust_threshold P relay_fee_rate script_size =
     3 * relay_fee_rate * (change_output_serialized_size P script_size + input_spend_vsize P)
       div 1000"

text \<open>
  Modelled from the spec: the selection loop of \<open>new_unsigned_transaction\<close> (section 4.3,
  step 2); author.go, which holds \<open>NewUnsignedTransaction\<close>, is not in the sources.
  \<open>scripts\<close> stands for the inputs selected so far (none at first). Each pass estimates the
  size without change (2a), computes the fee (2b) and the target (2c) and calls the input
  source (2d); an error of the source ends the call with \<open>InputSourceError\<close>; a total
  below the target starts the next pass (2e). The returns of the source are logged in
  order. The loop ends with the fee of its last pass and the last return. A source that
  keeps returning too little without an error keeps the loop running: the result is
  \<open>None\<close> then.
\<close>

partial_function (option) select_inputs ::
  "policy \<Rightarrow> 's InputSource \<Rightarrow> TxOut list \<Rightarrow> int \<Rightarrow> 's \<Rightarrow> bytes list \<Rightarrow> source_return list
     \<Rightarrow> (source_return list \<times> (author_error + int \<times> source_return)) option" where
  "select_inputs P input_source outputs relay_fee_rate st scripts rets =
     (let vsize = estimate_vsize P scripts outputs None;
          fee = required_fee relay_fee_rate vsize;
          target = sum_outputs outputs + fee
      in case input_source st target of
           ((total_selected, inputs, vals, scripts', err), st') \<Rightarrow>
             (case err of
                Some e \<Rightarrow> Some (rets @ [(total_selected, inputs, vals, scripts', err)], Inl ErrInputSource)
              | None \<Rightarrow>
                  if total_selected < target
                  then select_inputs P input_source outputs relay_fee_rate st' scripts'
                         (rets @ [(total_selected, inputs, vals, scripts', err)])
                  else Some (rets @ [(total_selected, inputs, vals, scripts', err)],
                             Inr (fee, total_selected, inputs, vals, scripts', err))))"

text \<open>
  Modelled from the spec: step 5 of \<open>new_unsigned_transaction\<close> (author.go, not in the
  sources): the transaction of the collected inputs and the given outputs, with the
  parallel input values and previous scripts, a default version and lock time, and the
  change index.
\<close>

definition assemble :: "policy \<Rightarrow> source_return \<Rightarrow> TxOut list \<Rightarrow> int \<Rightarrow> AuthoredTx" where
  "assemble P ret outs change_index =
     (case ret of (total_selected, inputs, vals, scripts, err) \<Rightarrow>
        \<lparr>Tx = \<lparr>Version = default_version P, TxIn = inputs, TxOut = outs,
                LockTime = default_locktime P\<rparr>,
         input_values = vals, previous_scripts = scripts, ChangeIndex = change_index\<rparr>)"

text \<open>
  Modelled from the spec: steps 3 and 4 of \<open>new_unsigned_transaction\<close> and its edge case
  for a relay fee rate of zero (section 4.3; author.go is not in the sources). Step 3's
  \<open>remaining\<close> is computed and not used further, as in the specification. The change
  decision recomputes the size with one more output of the change source's script size, at
  the inputs now selected (4a), the fee (4b), the change amount (4c) and the dust
  threshold (4d); with \<open>change_amount \<ge> dust_threshold\<close>, and a rate other than zero,
  \<open>new_script\<close> is called and the change output appended, its index the change index (4e);
  an error of \<open>new_script\<close> is returned as it is. Otherwise the change index is \<open>-1\<close>.
\<close>

definition change_decision ::
  "policy \<Rightarrow> TxOut list \<Rightarrow> int \<Rightarrow> ChangeSource \<Rightarrow> int \<Rightarrow> source_return
     \<Rightarrow> author_error + AuthoredTx" where
  "change_decision P outputs relay_fee_rate change_source fee ret =
     (case ret of (total_selected, inputs, vals, scripts, err) \<Rightarrow>
        let remaining = total_selected - sum_outputs outputs - fee;
            vsize_with_change =
              estimate_vsize P scripts outputs (Some (ScriptSize change_source));
            fee_with_change = required_fee relay_fee_rate vsize_with_change;
            change_amount = total_selected - sum_outputs outputs - fee_with_change;
            dust = dust_threshold P relay_fee_rate (ScriptSize change_source)
        in if relay_fee_rate \<noteq> 0 \<and> dust \<le> change_amount then
             (case NewScript change_source of
                Inl e \<Rightarrow> Inl (ErrOther e)
              | Inr script \<Rightarrow>
                  Inr (assemble P ret (outputs @ [\<lparr>Value = change_amount, PkScript = script\<rparr>])
                         (int (length outputs))))
           else Inr (assemble P ret outputs (- 1)))"

text \<open>
  Modelled from the spec: \<open>new_unsigned_transaction\<close> (section 4.3), the selection loop
  followed by the change decision; \<open>NewUnsignedTransaction\<close> of author.go is not in the
  sources. The result carries the log of the source's returns; \<open>None\<close> is a call that does
  not return.
\<close>

definition new_unsigned_transaction ::
  "policy \<Rightarrow> TxOut list \<Rightarrow> int \<Rightarrow> 's InputSource \<Rightarrow> 's \<Rightarrow> ChangeSource
     \<Rightarrow> (source_return list \<times> (author_error + AuthoredTx)) option" where
  "new_unsigned_transaction P outputs relay_fee_rate input_source st change_source =
     (case select_inputs P input_source outputs relay_fee_rate st [] [] of
        None \<Rightarrow> None
      | Some (rets, Inl e) \<Rightarrow> Some (rets, Inl e)
      | Some (rets, Inr (fee, ret)) \<Rightarrow>
          Some (rets, change_decision P outputs relay_fee_rate change_source fee ret))"


text \<open>
  Modelled from the spec: sizes for concrete runs, in the place of packages txsizes and
  txrules, which are not in the sources. The specification gives the shape of an output
  (an 8-byte value and a script, section 3) and the virtual size of a transaction without
  witness data, which is its size (section 6); the counts and script lengths are written
  with the usual variable-length prefix. Each input counts 148 bytes, the input size of
  the standard dust rule: with it a 25-byte P2PKH script has the thresholds the
  specification quotes, 546 at 1000 and 1392 at 2550 (lemma \<open>run_sizes\<close>). The general
  properties below hold for every policy; these sizes serve the concrete runs only.
\<close>

definition varint_size :: "int \<Rightarrow> int" where
  "varint_size n = (if n < 253 then 1 else if n \<le> 65535 then 3 else if n \<le> 4294967295 then 5 else 9)"

text \<open>Modelled from the spec: the serialized size of an output with a script of the given size.\<close>

definition output_size :: "int \<Rightarrow> int" where
  "output_size script_size = 8 + varint_size script_size + script_size"

text \<open>
  Modelled from the spec: the policy of the concrete runs. The estimate is 4 bytes of
  version, 4 of lock time, the two counts, 148 bytes for each input and the sizes of the
  outputs, with the change output when one is assumed.
\<close>

definition run_policy :: policy where
  "run_policy =
     \<lparr>estimate_vsize = (\<lambda>scripts outputs change.
          8 + varint_size (int (length scripts))
            + varint_size (int (length outputs) + (case change of None \<Rightarrow> 0 | Some _ \<Rightarrow> 1))
            + 148 * int (length scripts)
            + sum_list (map (\<lambda>out. output_size (int (length (PkScript out)))) outputs)
            + (case change of None \<Rightarrow> 0 | Some sz \<Rightarrow> output_size sz)),
      change_output_serialized_size = output_size,
      input_spend_vsize = 148,
      default_version = 1,
      default_locktime = 0\<rparr>"

text \<open>
  Modelled from the spec: the members of txsizes and txrules the test table uses, for the
  concrete runs: the estimator and the fee rule of \<open>run_policy\<close>, a P2PKH output of 34
  bytes (a 25-byte script) and a P2WPKH script of 22 bytes.
\<close>

definition run_deps :: deps where
  "run_deps =
     \<lparr>P2PKHOutputSize = 34,
      P2WPKHPkScriptSize = 22,
      EstimateVirtualSize = (\<lambda>p2pkh p2tr p2wpkh nested outputs changeScriptSize.
          estimate_vsize run_policy (replicate (nat (p2pkh + p2tr + p2wpkh + nested)) []) outputs
            (if 0 < changeScriptSize then Some changeScriptSize else None)),
      FeeForSerializeSize = required_fee\<rparr>"

text \<open>
  Modelled from the spec: one pass of the loop over the test table
  (\<open>inputSource := makeInputSource(...)\<close>, the call, the checks) with the modelled author in
  the place of \<open>NewUnsignedTransaction\<close>, which is not in the sources: the failures the test
  reports, or \<open>None\<close> when the call does not return.
\<close>

definition run_test :: "policy \<Rightarrow> deps \<Rightarrow> test_case \<Rightarrow> failure list option" where
  "run_test P D test =
     (case new_unsigned_transaction P (Outputs test) (RelayFee test) inputSource
             (makeInputSource (UnspentOutputs test)) (changeSource D) of
        None \<Rightarrow> None
      | Some (rets, res) \<Rightarrow> Some (check_test test res))"


section \<open>Properties of the event source selection\<close>

lemma hasSpendingPrevoutRPC_calls:
  "fst (hasSpendingPrevoutRPC B client) = [RPC ''getnetworkinfo'']"
  by (simp add: hasSpendingPrevoutRPC_def split: option.splits sum.splits)

text \<open>
  The version is \<open>10000 \<times> major + 100 \<times> minor + patch\<close> with \<open>minor\<close> and \<open>patch\<close> below
  100, so the threshold 240000 is major version 24.
\<close>

lemma version_threshold_major:
  fixes major minor patch :: int
  assumes "0 \<le> minor" "minor < 100" "0 \<le> patch" "patch < 100"
  shows "240000 \<le> 10000 * major + 100 * minor + patch \<longleftrightarrow> 24 \<le> major"
  using assms by linarith

text \<open>
  C7. \<open>NewBitcoindEventSubscriber\<close> returns \<open>nil\<close> and an error, and calls nothing, when
  both \<open>PollingConfig\<close> and \<open>ZMQConfig\<close> are given, and when neither is; whenever it
  returns an event source, exactly one of the two is given.
\<close>

theorem C7_both_or_neither_fails:
  "(PollingConfig cfg \<noteq> None \<and> ZMQConfig cfg \<noteq> None \<longrightarrow>
      NewBitcoindEventSubscriber B (Some cfg) client =
        ([], Returns None
               (Some ''either PollingConfig or ZMQConfig should be specified, not both'')))
   \<and> (PollingConfig cfg = None \<and> ZMQConfig cfg = None \<longrightarrow>
      NewBitcoindEventSubscriber B (Some cfg) client =
        ([], Returns None (Some ''ZMQConfig must be specified if rpcpolling is disabled'')))
   \<and> (\<forall>calls ev err.
        NewBitcoindEventSubscriber B (Some cfg) client = (calls, Returns (Some ev) err) \<longrightarrow>
        (PollingConfig cfg = None) \<noteq> (ZMQConfig cfg = None))"
proof (intro conjI impI allI)
  assume "PollingConfig cfg \<noteq> None \<and> ZMQConfig cfg \<noteq> None"
  then show "NewBitcoindEventSubscriber B (Some cfg) client =
      ([], Returns None
             (Some ''either PollingConfig or ZMQConfig should be specified, not both''))"
    by (simp add: NewBitcoindEventSubscriber_def)
next
  assume "PollingConfig cfg = None \<and> ZMQConfig cfg = None"
  then show "NewBitcoindEventSubscriber B (Some cfg) client =
      ([], Returns None (Some ''ZMQConfig must be specified if rpcpolling is disabled''))"
    by (simp add: NewBitcoindEventSubscriber_def)
next
  fix calls ev err
  assume ok: "NewBitcoindEventSubscriber B (Some cfg) client = (calls, Returns (Some ev) err)"
  then show "(PollingConfig cfg = None) \<noteq> (ZMQConfig cfg = None)"
    by (auto simp: NewBitcoindEventSubscriber_def split: option.splits prod.splits if_splits)
qed

text \<open>
  Witness for C7: both configurations, neither, and a push configuration alone against a
  bitcoind of version 25.1.0, which is constructed.
\<close>

theorem C7_witness:
  "NewBitcoindEventSubscriber (test_backend (Inr []) (Inr 250100))
       (Some \<lparr>PollingConfig = Some (), ZMQConfig = Some ()\<rparr>) (Some ()) =
     ([], Returns None
            (Some ''either PollingConfig or ZMQConfig should be specified, not both''))
   \<and> NewBitcoindEventSubscriber (test_backend (Inr []) (Inr 250100))
       (Some \<lparr>PollingConfig = None, ZMQConfig = None\<rparr>) (Some ()) =
     ([], Returns None (Some ''ZMQConfig must be specified if rpcpolling is disabled''))
   \<and> NewBitcoindEventSubscriber (test_backend (Inr []) (Inr 250100))
       (Some \<lparr>PollingConfig = None, ZMQConfig = Some ()\<rparr>) (Some ()) =
     ([RPC ''getnetworkinfo'', NewZMQEvents True], Returns (Some ''zmq without mempool'') None)
   \<and> (PollingConfig \<lparr>PollingConfig = None :: unit option, ZMQConfig = Some ()\<rparr> = None)
       \<noteq> (ZMQConfig \<lparr>PollingConfig = None :: unit option, ZMQConfig = Some ()\<rparr> = None)"
proof -
  let ?B = "test_backend (Inr []) (Inr 250100)"
  let ?zmq = "\<lparr>PollingConfig = None :: unit option, ZMQConfig = Some ()\<rparr>"
  have run: "NewBitcoindEventSubscriber ?B (Some ?zmq) (Some ()) =
      ([RPC ''getnetworkinfo'', NewZMQEvents True], Returns (Some ''zmq without mempool'') None)"
    by (simp add: NewBitcoindEventSubscriber_def hasSpendingPrevoutRPC_def test_backend_def
        word_sle_eq)
  from C7_both_or_neither_fails
         [where B = ?B and client = "Some ()"
            and cfg = "\<lparr>PollingConfig = Some (), ZMQConfig = Some ()\<rparr>"]
       C7_both_or_neither_fails
         [where B = ?B and client = "Some ()"
            and cfg = "\<lparr>PollingConfig = None, ZMQConfig = None\<rparr>"]
       C7_both_or_neither_fails [where B = ?B and client = "Some ()" and cfg = ?zmq]
       run
  show ?thesis by simp
qed

text \<open>
  C8. When \<open>getnetworkinfo\<close> answers and the answer decodes to the version \<open>version\<close>,
  \<open>hasSpendingPrevoutRPC\<close> makes that one request and returns, without error, whether
  \<open>version \<ge> 240000\<close> as signed 64-bit integers: true exactly from 240000 on.
\<close>

theorem C8_has_rpc_iff_version_ge_240000:
  assumes "RawRequest B client ''getnetworkinfo'' = Some (Inr resp)"
    and "Unmarshal B resp = Inr version"
  shows "hasSpendingPrevoutRPC B client =
           ([RPC ''getnetworkinfo''], Some (240000 \<le> sint version, None))"
  using assms by (simp add: hasSpendingPrevoutRPC_def word_sle_eq)

text \<open>Witness for C8: versions 24.0.0 and 23.99.99, on either side of the threshold.\<close>

theorem C8_witness:
  "hasSpendingPrevoutRPC (test_backend (Inr []) (Inr 240000)) (Some ()) =
     ([RPC ''getnetworkinfo''], Some (True, None))
   \<and> hasSpendingPrevoutRPC (test_backend (Inr []) (Inr 239999)) (Some ()) =
     ([RPC ''getnetworkinfo''], Some (False, None))"
proof -
  have a: "RawRequest (test_backend (Inr []) (Inr v)) (Some ()) ''getnetworkinfo'' = Some (Inr [])"
    and b: "Unmarshal (test_backend (Inr []) (Inr v)) [] = Inr v" for v
    by (simp_all add: test_backend_def)
  from C8_has_rpc_iff_version_ge_240000 [OF a b, of 240000]
       C8_has_rpc_iff_version_ge_240000 [OF a b, of 239999]
  show ?thesis by simp
qed

text \<open>
  C9. With a polling configuration and no RPC client, \<open>NewBitcoindEventSubscriber\<close>
  returns \<open>nil\<close> and an error and calls nothing; with the polling configuration alone
  the error is the one that asks for the client. Whenever an event source is returned
  under a polling configuration, the client is not \<open>nil\<close>.
\<close>

theorem C9_polling_requires_client:
  assumes "PollingConfig cfg \<noteq> None"
  shows "(client = None \<longrightarrow>
           (\<exists>e. NewBitcoindEventSubscriber B (Some cfg) client = ([], Returns None (Some e))))
       \<and> (client = None \<and> ZMQConfig cfg = None \<longrightarrow>
           NewBitcoindEventSubscriber B (Some cfg) client =
             ([], Returns None
                    (Some (''rpc client must be given if rpc polling is to be used '' @
                           ''for event subscriptions''))))
       \<and> (\<forall>calls ev err.
            NewBitcoindEventSubscriber B (Some cfg) client = (calls, Returns (Some ev) err) \<longrightarrow>
            client \<noteq> None)"
proof -
  from assms obtain p where p: "PollingConfig cfg = Some p" by auto
  show ?thesis
  proof (cases "ZMQConfig cfg")
    case None
    with p show ?thesis
      by (auto simp: NewBitcoindEventSubscriber_def split: option.splits)
  next
    case (Some z)
    with p show ?thesis
      by (auto simp: NewBitcoindEventSubscriber_def)
  qed
qed

text \<open>
  Witness for C9: a polling configuration without a client fails; with a client the
  polling source is constructed.
\<close>

theorem C9_witness:
  "NewBitcoindEventSubscriber (test_backend (Inr []) (Inr 250100))
       (Some \<lparr>PollingConfig = Some (), ZMQConfig = None\<rparr>) None =
     ([], Returns None
            (Some ''rpc client must be given if rpc polling is to be used for event subscriptions''))
   \<and> NewBitcoindEventSubscriber (test_backend (Inr []) (Inr 250100))
       (Some \<lparr>PollingConfig = Some (), ZMQConfig = None\<rparr>) (Some ()) =
     ([NewPollingEvents], Returns (Some ''polling'') None)
   \<and> Some () \<noteq> (None :: unit option)"
proof -
  let ?B = "test_backend (Inr []) (Inr 250100)"
  let ?cfg = "\<lparr>PollingConfig = Some (), ZMQConfig = None :: unit option\<rparr>"
  have sel: "PollingConfig ?cfg \<noteq> None" by simp
  have run: "NewBitcoindEventSubscriber ?B (Some ?cfg) (Some ()) =
      ([NewPollingEvents], Returns (Some ''polling'') None)"
    by (simp add: NewBitcoindEventSubscriber_def test_backend_def)
  from C9_polling_requires_client [OF sel, where B = ?B and client = None]
       C9_polling_requires_client [OF sel, where B = ?B and client = "Some ()"]
       run
  show ?thesis by simp
qed

text \<open>
  C10. With the push configuration alone, the \<open>getnetworkinfo\<close> request is the first
  call \<open>NewBitcoindEventSubscriber\<close> makes. When the request returns an error, or its
  response does not decode, that error is returned with \<open>nil\<close>, the request is the only
  call, made once, and \<open>newBitcoindZMQEvents\<close> is not called. When the probe succeeds,
  \<open>newBitcoindZMQEvents\<close> is called after it, with the probe's answer, and its results
  are returned.
\<close>

theorem C10_probe_before_zmq_events:
  assumes "PollingConfig cfg = None" and "ZMQConfig cfg = Some z"
  shows "(\<forall>e. RawRequest B client ''getnetworkinfo'' = Some (Inl e) \<longrightarrow>
            NewBitcoindEventSubscriber B (Some cfg) client =
              ([RPC ''getnetworkinfo''], Returns None (Some e)))
       \<and> (\<forall>resp e. RawRequest B client ''getnetworkinfo'' = Some (Inr resp)
                    \<and> Unmarshal B resp = Inl e \<longrightarrow>
            NewBitcoindEventSubscriber B (Some cfg) client =
              ([RPC ''getnetworkinfo''], Returns None (Some e)))
       \<and> (\<forall>resp version. RawRequest B client ''getnetworkinfo'' = Some (Inr resp)
                    \<and> Unmarshal B resp = Inr version \<longrightarrow>
            NewBitcoindEventSubscriber B (Some cfg) client =
              ([RPC ''getnetworkinfo'', NewZMQEvents (240000 \<le> sint version)],
               case newBitcoindZMQEvents B z client (240000 \<le> sint version) of
                 (ev, err) \<Rightarrow> Returns ev err))
       \<and> hd (fst (NewBitcoindEventSubscriber B (Some cfg) client)) = RPC ''getnetworkinfo''"
proof (intro conjI allI impI)
  fix e
  assume "RawRequest B client ''getnetworkinfo'' = Some (Inl e)"
  with assms show "NewBitcoindEventSubscriber B (Some cfg) client =
      ([RPC ''getnetworkinfo''], Returns None (Some e))"
    by (simp add: NewBitcoindEventSubscriber_def hasSpendingPrevoutRPC_def)
next
  fix resp e
  assume "RawRequest B client ''getnetworkinfo'' = Some (Inr resp) \<and> Unmarshal B resp = Inl e"
  with assms show "NewBitcoindEventSubscriber B (Some cfg) client =
      ([RPC ''getnetworkinfo''], Returns None (Some e))"
    by (simp add: NewBitcoindEventSubscriber_def hasSpendingPrevoutRPC_def)
next
  fix resp version
  assume "RawRequest B client ''getnetworkinfo'' = Some (Inr resp)
            \<and> Unmarshal B resp = Inr version"
  with assms show "NewBitcoindEventSubscriber B (Some cfg) client =
      ([RPC ''getnetworkinfo'', NewZMQEvents (240000 \<le> sint version)],
       case newBitcoindZMQEvents B z client (240000 \<le> sint version) of
         (ev, err) \<Rightarrow> Returns ev err)"
    by (simp add: NewBitcoindEventSubscriber_def hasSpendingPrevoutRPC_def word_sle_eq
        split: prod.splits)
next
  from assms show "hd (fst (NewBitcoindEventSubscriber B (Some cfg) client)) =
      RPC ''getnetworkinfo''"
    by (simp add: NewBitcoindEventSubscriber_def hasSpendingPrevoutRPC_def
        split: option.splits sum.splits prod.splits)
qed

text \<open>
  Witness for C10: a bitcoind that cannot be reached, one whose answer does not decode,
  and one of version 23.0.0, for which the source keeps its own mempool.
\<close>

theorem C10_witness:
  "NewBitcoindEventSubscriber (test_backend (Inl ''connection refused'') (Inr 0))
       (Some \<lparr>PollingConfig = None, ZMQConfig = Some ()\<rparr>) (Some ()) =
     ([RPC ''getnetworkinfo''], Returns None (Some ''connection refused''))
   \<and> NewBitcoindEventSubscriber (test_backend (Inr []) (Inl ''unexpected end of JSON input''))
       (Some \<lparr>PollingConfig = None, ZMQConfig = Some ()\<rparr>) (Some ()) =
     ([RPC ''getnetworkinfo''], Returns None (Some ''unexpected end of JSON input''))
   \<and> NewBitcoindEventSubscriber (test_backend (Inr []) (Inr 230000))
       (Some \<lparr>PollingConfig = None, ZMQConfig = Some ()\<rparr>) (Some ()) =
     ([RPC ''getnetworkinfo'', NewZMQEvents False], Returns (Some ''zmq with mempool'') None)"
proof -
  let ?cfg = "\<lparr>PollingConfig = None :: unit option, ZMQConfig = Some ()\<rparr>"
  have a: "PollingConfig ?cfg = None" and b: "ZMQConfig ?cfg = Some ()" by simp_all
  from C10_probe_before_zmq_events
         [OF a b, where B = "test_backend (Inl ''connection refused'') (Inr 0)"
            and client = "Some ()"]
  have 1: "NewBitcoindEventSubscriber (test_backend (Inl ''connection refused'') (Inr 0))
       (Some ?cfg) (Some ()) =
     ([RPC ''getnetworkinfo''], Returns None (Some ''connection refused''))"
    by (simp add: test_backend_def)
  from C10_probe_before_zmq_events
         [OF a b, where B = "test_backend (Inr []) (Inl ''unexpected end of JSON input'')"
            and client = "Some ()"]
  have 2: "NewBitcoindEventSubscriber
       (test_backend (Inr []) (Inl ''unexpected end of JSON input'')) (Some ?cfg) (Some ()) =
     ([RPC ''getnetworkinfo''], Returns None (Some ''unexpected end of JSON input''))"
    by (simp add: test_backend_def)
  from C10_probe_before_zmq_events
         [OF a b, where B = "test_backend (Inr []) (Inr 230000)" and client = "Some ()"]
  have 3: "NewBitcoindEventSubscriber (test_backend (Inr []) (Inr 230000))
       (Some ?cfg) (Some ()) =
     ([RPC ''getnetworkinfo'', NewZMQEvents False], Returns (Some ''zmq with mempool'') None)"
    by (simp add: test_backend_def)
  from 1 2 3 show ?thesis by simp
qed

section \<open>Properties of the test of NewUnsignedTransaction\<close>






section \<open>Properties of the modelled author\<close>

subsection \<open>The selection loop and the assembled transaction\<close>



lemma assemble_outputs: "TxOut (Tx (assemble P ret outs i)) = outs"
  by (simp add: assemble_def split: prod.splits)

lemma assemble_index: "ChangeIndex (assemble P ret outs i) = i"
  by (simp add: assemble_def split: prod.splits)



lemma wrap64_id: "- 9223372036854775808 \<le> x \<Longrightarrow> x < 9223372036854775808 \<Longrightarrow> wrap64 x = x"
  by (simp add: wrap64_def)


lemma change_decision_change:
  assumes "change_decision P outputs rate cs fee ret = Inr tx" and "0 \<le> ChangeIndex tx"
  shows "ChangeIndex tx = int (length outputs)
         \<and> length (TxOut (Tx tx)) = Suc (length outputs)
         \<and> take (length outputs) (TxOut (Tx tx)) = outputs
         \<and> dust_threshold P rate (ScriptSize cs) \<le> Value (TxOut (Tx tx) ! length outputs)
         \<and> NewScript cs = Inr (PkScript (TxOut (Tx tx) ! length outputs))
         \<and> rate \<noteq> 0"
  using assms
  by (auto simp: change_decision_def Let_def assemble_outputs assemble_index nth_append
      split: prod.splits if_splits sum.splits)

subsection \<open>The input source of the test\<close>

lemma consume_stop:
  "\<not> tot < target \<Longrightarrow>
   consume target us tot ins vals =
     \<lparr>unspents = us, currentTotal = tot, currentInputs = ins, currentInputValues = vals\<rparr>"
  by (cases us) simp_all

lemma inputSource_first:
  assumes "0 < target" "target \<le> 100000000" "Value u = 100000000"
  shows "inputSource (makeInputSource (u # us)) target =
           ((100000000, [nextInput], [100000000], [[]], None),
            \<lparr>unspents = us, currentTotal = 100000000, currentInputs = [nextInput],
             currentInputValues = [100000000]\<rparr>)"
  using assms
  by (simp add: inputSource_def makeInputSource_def Let_def wrap64_id consume_stop)

lemma inputSource_both:
  assumes "100000000 < target" "target \<le> 200000000" "Value u = 100000000"
    "Value u' = 100000000"
  shows "inputSource (makeInputSource [u, u']) target =
           ((200000000, [nextInput, nextInput], [100000000, 100000000], [[], []], None),
            \<lparr>unspents = [], currentTotal = 200000000, currentInputs = [nextInput, nextInput],
             currentInputValues = [100000000, 100000000]\<rparr>)"
  using assms
  by (simp add: inputSource_def makeInputSource_def Let_def wrap64_id)


lemma select_first:
  assumes "0 < sum_outputs outputs + required_fee rate (estimate_vsize P [] outputs None)"
    and "sum_outputs outputs + required_fee rate (estimate_vsize P [] outputs None) \<le> 100000000"
    and "Value u = 100000000"
  shows "select_inputs P inputSource outputs rate (makeInputSource (u # us)) [] [] =
           Some ([(100000000, [nextInput], [100000000], [[]], None)],
                 Inr (required_fee rate (estimate_vsize P [] outputs None),
                      100000000, [nextInput], [100000000], [[]], None))"
  using assms by (subst select_inputs.simps) (simp add: Let_def inputSource_first)


lemma select_both:
  assumes "100000000 < sum_outputs outputs + required_fee rate (estimate_vsize P [] outputs None)"
    and "sum_outputs outputs + required_fee rate (estimate_vsize P [] outputs None) \<le> 200000000"
    and "Value u = 100000000" and "Value u' = 100000000"
  shows "select_inputs P inputSource outputs rate (makeInputSource [u, u']) [] [] =
           Some ([(200000000, [nextInput, nextInput], [100000000, 100000000], [[], []], None)],
                 Inr (required_fee rate (estimate_vsize P [] outputs None),
                      200000000, [nextInput, nextInput], [100000000, 100000000], [[], []], None))"
  using assms by (subst select_inputs.simps) (simp add: Let_def inputSource_both)

lemma inputSource_exhausted:
  assumes "unspents st = []"
  shows "inputSource st target =
           ((currentTotal st, currentInputs st, currentInputValues st,
             replicate (length (currentInputs st)) [], None), st)"
  using assms by (simp add: inputSource_def Let_def)

lemma select_inputs_exhausted:
  assumes "unspents st = []"
    and "scripts = replicate (length (currentInputs st)) []"
    and "currentTotal st < sum_outputs outputs + required_fee rate (estimate_vsize P scripts outputs None)"
  shows "select_inputs P inputSource outputs rate st scripts rets = None"
proof (rule ccontr)
  assume "select_inputs P inputSource outputs rate st scripts rets \<noteq> None"
  then obtain y where run: "select_inputs P inputSource outputs rate st scripts rets = Some y"
    by auto
  define stuck where "stuck = (\<lambda>args :: ((((((policy \<times> source_state InputSource) \<times> TxOut list) \<times> int)
        \<times> source_state) \<times> bytes list) \<times> source_return list).
      case args of ((((((P', src'), outputs'), rate'), st'), scripts'), rets') \<Rightarrow>
        P' = P \<and> src' = inputSource \<and> outputs' = outputs \<and> rate' = rate \<and> st' = st
        \<and> scripts' = scripts)"
  have "\<not> stuck ((((((P, inputSource), outputs), rate), st), scripts), rets)"
    apply (rule select_inputs.raw_induct [rotated 1, where Pa = "\<lambda>args y. \<not> stuck args"])
     apply (rule run)
    subgoal premises prems for f P' src' outputs' rate' st' scripts' rets' y'
    proof
      assume "stuck ((((((P', src'), outputs'), rate'), st'), scripts'), rets')"
      then have eqs: "P' = P" "src' = inputSource" "outputs' = outputs" "rate' = rate"
        "st' = st" "scripts' = scripts"
        by (simp_all add: stuck_def)
      from prems(2) assms
      have "f P inputSource outputs rate st scripts
              (rets' @ [(currentTotal st, currentInputs st, currentInputValues st,
                         replicate (length (currentInputs st)) [], None)]) = Some y'"
        by (simp add: eqs Let_def inputSource_exhausted)
      from prems(1) [OF this] show False
        by (simp add: stuck_def)
    qed
    done
  then show False by (simp add: stuck_def)
qed

subsection \<open>The modelled author on the test table\<close>

text \<open>The sizes and fees of the concrete runs.\<close>

lemma run_sizes:
  "estimate_vsize run_policy [] [\<lparr>Value = v, PkScript = replicate 34 0\<rparr>] None = 53"
  "estimate_vsize run_policy [[]] [\<lparr>Value = v, PkScript = replicate 34 0\<rparr>] (Some 22) = 232"
  "estimate_vsize run_policy [[]] [\<lparr>Value = v, PkScript = replicate 34 0\<rparr>] None = 201"
  "dust_threshold run_policy 1000 22 = 537"
  "dust_threshold run_policy 1000 25 = 546"
  "dust_threshold run_policy 2550 25 = 1392"
  by (simp_all add: run_policy_def varint_size_def output_size_def dust_threshold_def)

lemma required_fee_1000: "required_fee 1000 n = n"
  by (simp add: required_fee_def)

lemma run_change_fee: "change_fee run_deps 1000 1 [0] = 232"
  by (simp add: change_fee_def run_deps_def p2pkhOutputs_def required_fee_1000 run_sizes)

lemma test_entries:
  "tests run_deps ! 0 =
     \<lparr>UnspentOutputs = [\<lparr>Value = 100000000, PkScript = replicate 34 0\<rparr>],
      Outputs = [\<lparr>Value = 100000000, PkScript = replicate 34 0\<rparr>],
      RelayFee = 1000, ChangeAmount = 0, InputSourceError = True, InputCount = 0\<rparr>"
  "tests run_deps ! 5 =
     \<lparr>UnspentOutputs = [\<lparr>Value = 100000000, PkScript = replicate 34 0\<rparr>],
      Outputs = [\<lparr>Value = 99994309, PkScript = replicate 34 0\<rparr>],
      RelayFee = 1000, ChangeAmount = 5459, InputSourceError = False, InputCount = 1\<rparr>"
  "tests run_deps ! 6 =
     \<lparr>UnspentOutputs = [\<lparr>Value = 100000000, PkScript = replicate 34 0\<rparr>],
      Outputs = [\<lparr>Value = 99994308, PkScript = replicate 34 0\<rparr>],
      RelayFee = 1000, ChangeAmount = 5460, InputSourceError = False, InputCount = 1\<rparr>"
  "tests run_deps ! 9 =
     \<lparr>UnspentOutputs = [\<lparr>Value = 100000000, PkScript = replicate 34 0\<rparr>,
                        \<lparr>Value = 100000000, PkScript = replicate 34 0\<rparr>],
      Outputs = [\<lparr>Value = 99994308, PkScript = replicate 34 0\<rparr>],
      RelayFee = 1000, ChangeAmount = 5460, InputSourceError = False, InputCount = 1\<rparr>"
  by (simp_all add: tests_def run_change_fee wrap64_id)
     (simp_all add: p2pkhOutputs_def run_deps_def)

lemmas run_defs = run_policy_def run_deps_def varint_size_def output_size_def
  dust_threshold_def required_fee_def sum_outputs_def p2pkhOutputs_def change_fee_def
  changeSource_def

lemma run_fees:
  "change_fee run_deps 1000 1 [0] = 232" "change_fee run_deps 2550 1 [0] = 592"
  "change_fee run_deps 1000 1 [1000000] = 232" "change_fee run_deps 10000 1 [1000000] = 2320"
  "change_fee run_deps 10000 1 [1000000, 1000000, 1000000] = 3180"
  "change_fee run_deps 2550 1 [1000000, 1000000, 1000000] = 811"
  "change_fee run_deps 1000 2 [100000000] = 380"
  by (simp_all add: run_defs)

text \<open>
  With the sizes of \<open>run_policy\<close>, the modelled author returns on entries 1 to 12 of the
  table what the test expects: each of them passes.
\<close>

lemma model_passes_entries_1_to_12:
  "map (run_test run_policy run_deps) (tl (tests run_deps)) =
     [Some [], Some [], Some [], Some [], Some [], Some [], Some [], Some [], Some [], Some [],
      Some [], Some []]"
  unfolding tests_def run_fees
  by (simp add: wrap64_id p2pkhOutputs_def run_deps_def changeSource_def run_test_def
        new_unsigned_transaction_def select_first select_both sum_outputs_def run_policy_def
        varint_size_def output_size_def dust_threshold_def required_fee_def
        change_decision_def Let_def assemble_def check_test_def check_inputs_def)

text \<open>
  Entry 0 is different. The closure of the test reports exhaustion by a total below the
  target and no error, and step 2e of the specification answers a total below the target
  with the next pass. The source has nothing left, so every pass is the same: the modelled
  call does not return, where the test expects \<open>InputSourceError\<close>. The properties below
  that concern exhaustion are stated for a source that returns an error then, as the
  contract of section 4.3 has it.
\<close>

lemma entry0_has_no_result:
  "run_test run_policy run_deps (tests run_deps ! 0) = None"
proof -
  let ?u = "\<lparr>Value = 100000000, PkScript = replicate 34 0\<rparr>"
  let ?st = "\<lparr>unspents = [], currentTotal = 100000000, currentInputs = [nextInput],
              currentInputValues = [100000000]\<rparr>"
  have src: "inputSource (makeInputSource [?u]) 100000053 =
      ((100000000, [nextInput], [100000000], [[]], None), ?st)"
    by (simp add: inputSource_def makeInputSource_def Let_def wrap64_id)
  have "select_inputs run_policy inputSource [?u] 1000 ?st [[]] rets = None" for rets
    by (rule select_inputs_exhausted) (simp_all add: sum_outputs_def required_fee_1000 run_sizes)
  then have "select_inputs run_policy inputSource [?u] 1000 (makeInputSource [?u]) [] [] = None"
    by (subst select_inputs.simps)
       (simp add: Let_def sum_outputs_def required_fee_1000 run_sizes src)
  then show ?thesis
    by (simp add: test_entries run_test_def new_unsigned_transaction_def)
qed

subsection \<open>Change output, inputs and errors of the modelled author\<close>

text \<open>
  C3. Whenever the modelled \<open>new_unsigned_transaction\<close> returns a transaction with a
  change output (a change index of at least 0), the change index is the position after
  the caller's outputs, which come first and unchanged; the output there carries the
  script of the change source, and its value is at least the dust threshold computed for
  the change script size at the given relay fee rate. So no amount below the threshold
  is a change output.
\<close>

theorem C3_change_at_least_dust:
  assumes "new_unsigned_transaction P outputs rate src st cs = Some (rets, Inr tx)"
    and "0 \<le> ChangeIndex tx"
  shows "nat (ChangeIndex tx) < length (TxOut (Tx tx))
         \<and> dust_threshold P rate (ScriptSize cs)
             \<le> Value (TxOut (Tx tx) ! nat (ChangeIndex tx))
         \<and> ChangeIndex tx = int (length outputs)
         \<and> take (length outputs) (TxOut (Tx tx)) = outputs
         \<and> NewScript cs = Inr (PkScript (TxOut (Tx tx) ! nat (ChangeIndex tx)))"
proof -
  from assms(1) obtain fee ret where
    "change_decision P outputs rate cs fee ret = Inr tx"
    by (auto simp: new_unsigned_transaction_def split: option.splits sum.splits prod.splits)
  from change_decision_change [OF this assms(2)] show ?thesis by simp
qed

text \<open>
  Witness for C3: entry 6 of the test table. The change output of 5460 is above the
  threshold of 537 for a 22-byte script at 1000.
\<close>

theorem C3_witness:
  "new_unsigned_transaction run_policy [\<lparr>Value = 99994308, PkScript = replicate 34 0\<rparr>] 1000
     inputSource (makeInputSource [\<lparr>Value = 100000000, PkScript = replicate 34 0\<rparr>])
     (changeSource run_deps) =
   Some ([(100000000, [nextInput], [100000000], [[]], None)],
         Inr \<lparr>Tx = \<lparr>Version = 1, TxIn = [nextInput],
                    TxOut = [\<lparr>Value = 99994308, PkScript = replicate 34 0\<rparr>,
                             \<lparr>Value = 5460, PkScript = replicate 22 0\<rparr>],
                    LockTime = 0\<rparr>,
              input_values = [100000000], previous_scripts = [[]], ChangeIndex = 1\<rparr>)
   \<and> dust_threshold run_policy 1000 (ScriptSize (changeSource run_deps)) = 537
   \<and> (537 :: int) \<le> 5460"
proof -
  let ?out = "\<lparr>Value = 99994308, PkScript = replicate 34 0\<rparr>"
  let ?r1 = "(100000000, [nextInput], [100000000], [[]], None) :: source_return"
  let ?tx = "\<lparr>Tx = \<lparr>Version = 1, TxIn = [nextInput],
                    TxOut = [?out, \<lparr>Value = 5460, PkScript = replicate 22 0\<rparr>],
                    LockTime = 0\<rparr>,
              input_values = [100000000], previous_scripts = [[]], ChangeIndex = 1\<rparr>"
  have sel: "select_inputs run_policy inputSource [?out] 1000
               (makeInputSource [\<lparr>Value = 100000000, PkScript = replicate 34 0\<rparr>]) [] [] =
             Some ([?r1], Inr (53, ?r1))"
    using select_first [where P = run_policy and rate = 1000 and outputs = "[?out]"
        and u = "\<lparr>Value = 100000000, PkScript = replicate 34 0\<rparr>" and us = "[]"]
    by (simp add: sum_outputs_def required_fee_1000 run_sizes)
  have size: "ScriptSize (changeSource run_deps) = 22"
    and script: "NewScript (changeSource run_deps) = Inr (replicate 22 0)"
    by (simp_all add: changeSource_def run_deps_def)
  have dec: "change_decision run_policy [?out] 1000 (changeSource run_deps) 53 ?r1 = Inr ?tx"
    by (simp add: change_decision_def Let_def size script sum_outputs_def required_fee_1000
        run_sizes assemble_def)
       (simp add: run_policy_def)
  have run: "new_unsigned_transaction run_policy [?out] 1000 inputSource
               (makeInputSource [\<lparr>Value = 100000000, PkScript = replicate 34 0\<rparr>])
               (changeSource run_deps) = Some ([?r1], Inr ?tx)"
    by (simp add: new_unsigned_transaction_def sel dec)
  have idx: "0 \<le> ChangeIndex ?tx" by simp
  from C3_change_at_least_dust [OF run idx]
  have "dust_threshold run_policy 1000 (ScriptSize (changeSource run_deps)) \<le> 5460"
    by simp
  moreover have "dust_threshold run_policy 1000 (ScriptSize (changeSource run_deps)) = 537"
    by (simp add: size run_sizes)
  ultimately show ?thesis using run by simp
qed





end
